theory Spec2Isabelle
  imports Main
begin

section \<open>Input handlers of the game (input_handlers.py)\<close>

text \<open>
  The module turns input events into actions. Every handler class holds a reference to
  the one engine; the engine holds the active handler in \<open>engine.event_handler\<close>.
  A method is modelled as a function that takes the engine (and the handler object
  \<open>self\<close> where the method reads or writes its own fields) and returns the result
  together with the engine as the method leaves it. A raised exception is a value.
\<close>

subsection \<open>Key symbols\<close>

text \<open>
  \<open>tcod.event.KeySym\<close> is an \<open>IntEnum\<close>: a key symbol is an integer, and the source
  subtracts key symbols (\<open>key - tcod.event.KeySym.a\<close>). The numbers are those of the
  tcod library (the SDL key codes): a printable key has its ASCII code, every other key
  is \<open>2^30\<close> plus its scan code.
\<close>

type_synonym keysym = int

named_theorems keysym_defs

definition KeySym_ESCAPE :: keysym where [keysym_defs]: "KeySym_ESCAPE = 27"
definition KeySym_PERIOD :: keysym where [keysym_defs]: "KeySym_PERIOD = 46"
definition KeySym_a :: keysym where [keysym_defs]: "KeySym_a = 97"
definition KeySym_b :: keysym where [keysym_defs]: "KeySym_b = 98"
definition KeySym_d :: keysym where [keysym_defs]: "KeySym_d = 100"
definition KeySym_g :: keysym where [keysym_defs]: "KeySym_g = 103"
definition KeySym_h :: keysym where [keysym_defs]: "KeySym_h = 104"
definition KeySym_i :: keysym where [keysym_defs]: "KeySym_i = 105"
definition KeySym_j :: keysym where [keysym_defs]: "KeySym_j = 106"
definition KeySym_k :: keysym where [keysym_defs]: "KeySym_k = 107"
definition KeySym_l :: keysym where [keysym_defs]: "KeySym_l = 108"
definition KeySym_n :: keysym where [keysym_defs]: "KeySym_n = 110"
definition KeySym_u :: keysym where [keysym_defs]: "KeySym_u = 117"
definition KeySym_v :: keysym where [keysym_defs]: "KeySym_v = 118"
definition KeySym_y :: keysym where [keysym_defs]: "KeySym_y = 121"
definition KeySym_z :: keysym where [keysym_defs]: "KeySym_z = 122"
definition KeySym_HOME :: keysym where [keysym_defs]: "KeySym_HOME = 1073741898"
definition KeySym_PAGEUP :: keysym where [keysym_defs]: "KeySym_PAGEUP = 1073741899"
definition KeySym_END :: keysym where [keysym_defs]: "KeySym_END = 1073741901"
definition KeySym_PAGEDOWN :: keysym where [keysym_defs]: "KeySym_PAGEDOWN = 1073741902"
definition KeySym_RIGHT :: keysym where [keysym_defs]: "KeySym_RIGHT = 1073741903"
definition KeySym_LEFT :: keysym where [keysym_defs]: "KeySym_LEFT = 1073741904"
definition KeySym_DOWN :: keysym where [keysym_defs]: "KeySym_DOWN = 1073741905"
definition KeySym_UP :: keysym where [keysym_defs]: "KeySym_UP = 1073741906"
definition KeySym_KP_1 :: keysym where [keysym_defs]: "KeySym_KP_1 = 1073741913"
definition KeySym_KP_2 :: keysym where [keysym_defs]: "KeySym_KP_2 = 1073741914"
definition KeySym_KP_3 :: keysym where [keysym_defs]: "KeySym_KP_3 = 1073741915"
definition KeySym_KP_4 :: keysym where [keysym_defs]: "KeySym_KP_4 = 1073741916"
definition KeySym_KP_5 :: keysym where [keysym_defs]: "KeySym_KP_5 = 1073741917"
definition KeySym_KP_6 :: keysym where [keysym_defs]: "KeySym_KP_6 = 1073741918"
definition KeySym_KP_7 :: keysym where [keysym_defs]: "KeySym_KP_7 = 1073741919"
definition KeySym_KP_8 :: keysym where [keysym_defs]: "KeySym_KP_8 = 1073741920"
definition KeySym_KP_9 :: keysym where [keysym_defs]: "KeySym_KP_9 = 1073741921"
definition KeySym_CLEAR :: keysym where [keysym_defs]: "KeySym_CLEAR = 1073741980"
definition KeySym_LCTRL :: keysym where [keysym_defs]: "KeySym_LCTRL = 1073742048"
definition KeySym_LSHIFT :: keysym where [keysym_defs]: "KeySym_LSHIFT = 1073742049"
definition KeySym_LALT :: keysym where [keysym_defs]: "KeySym_LALT = 1073742050"
definition KeySym_RCTRL :: keysym where [keysym_defs]: "KeySym_RCTRL = 1073742052"
definition KeySym_RSHIFT :: keysym where [keysym_defs]: "KeySym_RSHIFT = 1073742053"
definition KeySym_RALT :: keysym where [keysym_defs]: "KeySym_RALT = 1073742054"

subsection \<open>Data\<close>

text \<open>
  Modelled from the spec: the message categories \<open>color.impossible\<close> and
  \<open>color.invalid\<close> of color.py, which is not among the sources. The spec names three
  categories that are told apart: ordinary narrative messages, impossible-failures and
  invalid entries.
\<close>

datatype color = narrative | impossible | invalid

text \<open>
  An item and an entity carry what this module reads of them: a name, and for the player
  the ordered sequence \<open>player.inventory.items\<close>.
\<close>

record item =
  item_name :: string

record entity =
  entity_name :: string
  inventory_items :: "item list"

text \<open>
  The actions this module constructs. \<open>ItemAction\<close> stands for whatever action an
  item's \<open>consumable.get_action\<close> builds (actions.py is not among the sources).
\<close>

datatype action =
    BumpAction entity int int
  | WaitAction entity
  | PickupAction entity
  | DropItem entity item
  | ItemAction entity item

text \<open>
  The exceptions that cross this module. \<open>Impossible\<close> carries the \<open>args\<close> tuple
  of the exception: the source reads \<open>exc.args[0]\<close>.
\<close>

datatype exn =
    SystemExit
  | NotImplementedError
  | IndexError
  | Impossible "string list"
  | OtherError string

datatype 'a res = Return 'a | Raise exn

text \<open>The fields of a HistoryViewer object, set by its \<open>__init__\<close>.\<close>

record history_viewer =
  log_length :: int
  cursor :: int

text \<open>The handler classes; only a HistoryViewer object has fields of its own.\<close>

datatype handler =
    EventHandler
  | AskUserEventHandler
  | InventoryEventHandler
  | InventoryActivateHandler
  | InventoryDropHandler
  | MainGameEventHandler
  | GameOverEventHandler
  | HistoryViewer history_viewer

text \<open>
  The engine, with the fields this module reads or writes. \<open>message_log\<close> is
  \<open>engine.message_log.messages\<close>; \<open>game_map\<close> is the rest of the world, opaque here.
\<close>

record 'm engine =
  event_handler :: handler
  message_log :: "(string \<times> color) list"
  mouse_location :: "int \<times> int"
  player :: entity
  game_map :: 'm

text \<open>
  The collaborators this module calls and does not define (actions.py, engine.py,
  game_map.py and the entity classes are not among the sources), taken as parameters:
  \<open>action.perform()\<close> may change the engine and then return or raise;
  \<open>engine.handle_enemy_turns()\<close> and \<open>engine.update_fov()\<close> change the engine and
  return; \<open>game_map.in_bounds(x, y)\<close> is a query;
  \<open>item.consumable.get_action(player)\<close> builds an action, no action, or raises.
\<close>

record 'm collab =
  perform :: "action \<Rightarrow> 'm engine \<Rightarrow> unit res \<times> 'm engine"
  handle_enemy_turns :: "'m engine \<Rightarrow> 'm engine"
  update_fov :: "'m engine \<Rightarrow> 'm engine"
  in_bounds :: "'m \<Rightarrow> int \<Rightarrow> int \<Rightarrow> bool"
  get_action :: "item \<Rightarrow> entity \<Rightarrow> 'm engine \<Rightarrow> action option res \<times> 'm engine"

text \<open>
  The calls of collaborators that \<open>handle_action\<close> makes are recorded in order, in a
  list kept beside the engine where no collaborator can reach it.
\<close>

datatype call = Call_perform action | Call_handle_enemy_turns | Call_update_fov

record 'm state =
  eng :: "'m engine"
  calls :: "call list"

text \<open>
  Modelled from the spec: \<open>message_log.add_message(text, fg)\<close> of message_log.py,
  which is not among the sources. The spec's message log is an append-only ordered
  sequence, and the call is \<open>log.append(text, category)\<close>.
\<close>

definition add_message :: "string \<Rightarrow> color \<Rightarrow> 'm engine \<Rightarrow> 'm engine" where
  "add_message text fg e = e\<lparr>message_log := message_log e @ [(text, fg)]\<rparr>"

subsection \<open>The key tables\<close>

definition MOVE_KEYS :: "(keysym \<times> int \<times> int) list" where
  "MOVE_KEYS =
    [(KeySym_UP, (0, -1)),
     (KeySym_DOWN, (0, 1)),
     (KeySym_LEFT, (-1, 0)),
     (KeySym_RIGHT, (1, 0)),
     (KeySym_HOME, (-1, -1)),
     (KeySym_END, (-1, 1)),
     (KeySym_PAGEUP, (1, -1)),
     (KeySym_PAGEDOWN, (1, 1)),
     (KeySym_KP_1, (-1, 1)),
     (KeySym_KP_2, (0, 1)),
     (KeySym_KP_3, (1, 1)),
     (KeySym_KP_4, (-1, 0)),
     (KeySym_KP_6, (1, 0)),
     (KeySym_KP_7, (-1, -1)),
     (KeySym_KP_8, (0, -1)),
     (KeySym_KP_9, (1, -1)),
     (KeySym_h, (-1, 0)),
     (KeySym_j, (0, 1)),
     (KeySym_k, (0, -1)),
     (KeySym_l, (1, 0)),
     (KeySym_y, (-1, -1)),
     (KeySym_u, (1, -1)),
     (KeySym_b, (-1, 1)),
     (KeySym_n, (1, 1))]"

definition WAIT_KEYS :: "keysym list" where
  "WAIT_KEYS = [KeySym_PERIOD, KeySym_KP_5, KeySym_CLEAR]"

definition CURSOR_Y_KEYS :: "(keysym \<times> int) list" where
  "CURSOR_Y_KEYS =
    [(KeySym_UP, -1),
     (KeySym_DOWN, 1),
     (KeySym_PAGEUP, -10),
     (KeySym_PAGEDOWN, 10)]"

subsection \<open>EventHandler\<close>

definition EventHandler_handle_action ::
  "'m collab \<Rightarrow> action option \<Rightarrow> 'm state \<Rightarrow> bool res \<times> 'm state" where
  "EventHandler_handle_action c act s =
    (case act of
       None \<Rightarrow> (Return False, s)
     | Some a \<Rightarrow>
        (let (r, e1) = perform c a (eng s);
             cs1 = calls s @ [Call_perform a]
         in case r of
              Raise ex \<Rightarrow>
                (case ex of
                   Impossible args \<Rightarrow>
                     (case args of
                        [] \<Rightarrow> (Raise IndexError, \<lparr>eng = e1, calls = cs1\<rparr>)
                      | reason # _ \<Rightarrow>
                          (Return False,
                           \<lparr>eng = add_message reason impossible e1, calls = cs1\<rparr>))
                 | _ \<Rightarrow> (Raise ex, \<lparr>eng = e1, calls = cs1\<rparr>))
            | Return _ \<Rightarrow>
                (let e2 = handle_enemy_turns c e1;
                     cs2 = cs1 @ [Call_handle_enemy_turns];
                     e3 = update_fov c e2;
                     cs3 = cs2 @ [Call_update_fov]
                 in (Return True, \<lparr>eng = e3, calls = cs3\<rparr>))))"

definition EventHandler_ev_mousemotion ::
  "'m collab \<Rightarrow> int \<times> int \<Rightarrow> 'm engine \<Rightarrow> action option res \<times> 'm engine" where
  "EventHandler_ev_mousemotion c tile e =
    (if in_bounds c (game_map e) (fst tile) (snd tile)
     then (Return None, e\<lparr>mouse_location := (fst tile, snd tile)\<rparr>)
     else (Return None, e))"

definition EventHandler_ev_quit :: "'m engine \<Rightarrow> action option res \<times> 'm engine" where
  "EventHandler_ev_quit e = (Raise SystemExit, e)"

subsection \<open>AskUserEventHandler\<close>

definition AskUserEventHandler_handle_action ::
  "'m collab \<Rightarrow> action option \<Rightarrow> 'm state \<Rightarrow> bool res \<times> 'm state" where
  "AskUserEventHandler_handle_action c act s =
    (let (r, s1) = EventHandler_handle_action c act s
     in case r of
          Raise ex \<Rightarrow> (Raise ex, s1)
        | Return b \<Rightarrow>
            (if b
             then (Return True, s1\<lparr>eng := (eng s1)\<lparr>event_handler := MainGameEventHandler\<rparr>\<rparr>)
             else (Return False, s1)))"

definition AskUserEventHandler_on_exit :: "'m engine \<Rightarrow> action option res \<times> 'm engine" where
  "AskUserEventHandler_on_exit e = (Return None, e\<lparr>event_handler := MainGameEventHandler\<rparr>)"

definition modifier_keys :: "keysym list" where
  "modifier_keys =
    [KeySym_LSHIFT, KeySym_RSHIFT, KeySym_LCTRL, KeySym_RCTRL, KeySym_LALT, KeySym_RALT]"

definition AskUserEventHandler_ev_keydown ::
  "keysym \<Rightarrow> 'm engine \<Rightarrow> action option res \<times> 'm engine" where
  "AskUserEventHandler_ev_keydown ksym e =
    (if ksym \<in> set modifier_keys then (Return None, e)
     else AskUserEventHandler_on_exit e)"

definition AskUserEventHandler_ev_mousebuttondown ::
  "'m engine \<Rightarrow> action option res \<times> 'm engine" where
  "AskUserEventHandler_ev_mousebuttondown e = AskUserEventHandler_on_exit e"

subsection \<open>The inventory handlers\<close>

text \<open>
  \<open>on_item_selected\<close> is the method the subclasses override; \<open>ev_keydown\<close> takes it as
  an argument. \<open>index\<close> is not negative where the list is read, so the read raises
  IndexError exactly when \<open>index\<close> is not below the length.
\<close>

definition InventoryEventHandler_ev_keydown ::
  "(item \<Rightarrow> 'm engine \<Rightarrow> action option res \<times> 'm engine) \<Rightarrow>
   keysym \<Rightarrow> 'm engine \<Rightarrow> action option res \<times> 'm engine" where
  "InventoryEventHandler_ev_keydown on_item_selected ksym e =
    (let player = player e;
         key = ksym;
         index = key - KeySym_a
     in if 0 \<le> index \<and> index \<le> 26
        then (if nat index < length (inventory_items player)
              then on_item_selected (inventory_items player ! nat index) e
              else (Return None, add_message ''Invalid entry.'' invalid e))
        else AskUserEventHandler_ev_keydown ksym e)"

definition InventoryEventHandler_on_item_selected ::
  "item \<Rightarrow> 'm engine \<Rightarrow> action option res \<times> 'm engine" where
  "InventoryEventHandler_on_item_selected it e = (Raise NotImplementedError, e)"

definition InventoryActivateHandler_on_item_selected ::
  "'m collab \<Rightarrow> item \<Rightarrow> 'm engine \<Rightarrow> action option res \<times> 'm engine" where
  "InventoryActivateHandler_on_item_selected c it e = get_action c it (player e) e"

definition InventoryDropHandler_on_item_selected ::
  "item \<Rightarrow> 'm engine \<Rightarrow> action option res \<times> 'm engine" where
  "InventoryDropHandler_on_item_selected it e = (Return (Some (DropItem (player e) it)), e)"

subsection \<open>HistoryViewer\<close>

definition HistoryViewer_init :: "'m engine \<Rightarrow> history_viewer" where
  "HistoryViewer_init e =
    (let n = int (length (message_log e))
     in \<lparr>log_length = n, cursor = n - 1\<rparr>)"

text \<open>
  \<open>ev_keydown\<close> writes \<open>self.cursor\<close> or \<open>self.engine.event_handler\<close>: the function
  returns the viewer object and the engine.
\<close>

definition HistoryViewer_ev_keydown ::
  "history_viewer \<Rightarrow> keysym \<Rightarrow> 'm engine \<Rightarrow> history_viewer \<times> 'm engine" where
  "HistoryViewer_ev_keydown self ksym e =
    (case map_of CURSOR_Y_KEYS ksym of
       Some adjust \<Rightarrow>
         (if adjust < 0 \<and> cursor self = 0
          then (self\<lparr>cursor := log_length self - 1\<rparr>, e)
          else if adjust > 0 \<and> cursor self = log_length self - 1
          then (self\<lparr>cursor := 0\<rparr>, e)
          else (self\<lparr>cursor := max 0 (min (cursor self + adjust) (log_length self - 1))\<rparr>, e))
     | None \<Rightarrow>
         (if ksym = KeySym_HOME then (self\<lparr>cursor := 0\<rparr>, e)
          else if ksym = KeySym_END then (self\<lparr>cursor := log_length self - 1\<rparr>, e)
          else (self, e\<lparr>event_handler := MainGameEventHandler\<rparr>)))"

subsection \<open>MainGameEventHandler and GameOverEventHandler\<close>

definition MainGameEventHandler_ev_keydown ::
  "keysym \<Rightarrow> 'm engine \<Rightarrow> action option res \<times> 'm engine" where
  "MainGameEventHandler_ev_keydown key e =
    (let player = player e
     in case map_of MOVE_KEYS key of
          Some (dx, dy) \<Rightarrow> (Return (Some (BumpAction player dx dy)), e)
        | None \<Rightarrow>
           (if key \<in> set WAIT_KEYS then (Return (Some (WaitAction player)), e)
            else if key = KeySym_ESCAPE then (Raise SystemExit, e)
            else if key = KeySym_v
            then (Return None, e\<lparr>event_handler := HistoryViewer (HistoryViewer_init e)\<rparr>)
            else if key = KeySym_g then (Return (Some (PickupAction player)), e)
            else if key = KeySym_i
            then (Return None, e\<lparr>event_handler := InventoryActivateHandler\<rparr>)
            else if key = KeySym_d
            then (Return None, e\<lparr>event_handler := InventoryDropHandler\<rparr>)
            else (Return None, e)))"

definition GameOverEventHandler_ev_keydown ::
  "keysym \<Rightarrow> 'm engine \<Rightarrow> action option res \<times> 'm engine" where
  "GameOverEventHandler_ev_keydown ksym e =
    (if ksym = KeySym_ESCAPE then (Raise SystemExit, e) else (Return None, e))"

subsection \<open>Method resolution and dispatch\<close>

text \<open>The classes that derive from AskUserEventHandler (the class itself included).\<close>

fun derives_AskUser :: "handler \<Rightarrow> bool" where
  "derives_AskUser AskUserEventHandler = True"
| "derives_AskUser InventoryEventHandler = True"
| "derives_AskUser InventoryActivateHandler = True"
| "derives_AskUser InventoryDropHandler = True"
| "derives_AskUser _ = False"

text \<open>\<open>self.handle_action(action)\<close>: AskUserEventHandler overrides the base method.\<close>

definition handle_action ::
  "'m collab \<Rightarrow> handler \<Rightarrow> action option \<Rightarrow> 'm state \<Rightarrow> bool res \<times> 'm state" where
  "handle_action c self act s =
    (if derives_AskUser self then AskUserEventHandler_handle_action c act s
     else EventHandler_handle_action c act s)"

text \<open>
  \<open>self.ev_keydown(event)\<close>. A class that defines no \<open>ev_keydown\<close> of its own has
  the one of \<open>tcod.event.EventDispatch\<close>, which does nothing and returns None. The
  result holds the object \<open>self\<close> as the method leaves it.
\<close>

fun ev_keydown ::
  "'m collab \<Rightarrow> handler \<Rightarrow> keysym \<Rightarrow> 'm engine \<Rightarrow> action option res \<times> handler \<times> 'm engine" where
  "ev_keydown c EventHandler ksym e = (Return None, EventHandler, e)"
| "ev_keydown c AskUserEventHandler ksym e =
    (let (r, e1) = AskUserEventHandler_ev_keydown ksym e in (r, AskUserEventHandler, e1))"
| "ev_keydown c InventoryEventHandler ksym e =
    (let (r, e1) = InventoryEventHandler_ev_keydown InventoryEventHandler_on_item_selected ksym e
     in (r, InventoryEventHandler, e1))"
| "ev_keydown c InventoryActivateHandler ksym e =
    (let (r, e1) =
       InventoryEventHandler_ev_keydown (InventoryActivateHandler_on_item_selected c) ksym e
     in (r, InventoryActivateHandler, e1))"
| "ev_keydown c InventoryDropHandler ksym e =
    (let (r, e1) = InventoryEventHandler_ev_keydown InventoryDropHandler_on_item_selected ksym e
     in (r, InventoryDropHandler, e1))"
| "ev_keydown c MainGameEventHandler ksym e =
    (let (r, e1) = MainGameEventHandler_ev_keydown ksym e in (r, MainGameEventHandler, e1))"
| "ev_keydown c GameOverEventHandler ksym e =
    (let (r, e1) = GameOverEventHandler_ev_keydown ksym e in (r, GameOverEventHandler, e1))"
| "ev_keydown c (HistoryViewer hv) ksym e =
    (let (hv1, e1) = HistoryViewer_ev_keydown hv ksym e in (Return None, HistoryViewer hv1, e1))"

text \<open>
  The input events, and \<open>self.dispatch(event)\<close> of \<open>tcod.event.EventDispatch\<close>, which
  calls the method named after the type of the event. An event of any other type
  reaches a method of the library that returns None.
\<close>

datatype event =
    KeyDown keysym
  | MouseMotion "int \<times> int"
  | MouseButtonDown
  | Quit
  | OtherEvent

definition dispatch ::
  "'m collab \<Rightarrow> handler \<Rightarrow> event \<Rightarrow> 'm engine \<Rightarrow> action option res \<times> handler \<times> 'm engine" where
  "dispatch c self ev e =
    (case ev of
       KeyDown ksym \<Rightarrow> ev_keydown c self ksym e
     | MouseMotion tile \<Rightarrow>
         (let (r, e1) = EventHandler_ev_mousemotion c tile e in (r, self, e1))
     | MouseButtonDown \<Rightarrow>
         (if derives_AskUser self
          then (let (r, e1) = AskUserEventHandler_ev_mousebuttondown e in (r, self, e1))
          else (Return None, self, e))
     | Quit \<Rightarrow> (let (r, e1) = EventHandler_ev_quit e in (r, self, e1))
     | OtherEvent \<Rightarrow> (Return None, self, e))"

definition handle_events ::
  "'m collab \<Rightarrow> handler \<Rightarrow> event \<Rightarrow> 'm state \<Rightarrow> unit res \<times> handler \<times> 'm state" where
  "handle_events c self ev s =
    (let (r, self1, e1) = dispatch c self ev (eng s);
         s1 = s\<lparr>eng := e1\<rparr>
     in case r of
          Raise ex \<Rightarrow> (Raise ex, self1, s1)
        | Return act \<Rightarrow>
            (let (r2, s2) = handle_action c self1 act s1
             in case r2 of
                  Raise ex \<Rightarrow> (Raise ex, self1, s2)
                | Return _ \<Rightarrow> (Return (), self1, s2)))"

subsection \<open>A sequence of key presses in the history viewer\<close>

text \<open>
  The key presses \<open>ks\<close>, one after the other, delivered to one viewer object: each
  press is one call of \<open>HistoryViewer.ev_keydown\<close> on the object and the engine the
  press before it left.
\<close>

fun HistoryViewer_presses ::
  "history_viewer \<Rightarrow> keysym list \<Rightarrow> 'm engine \<Rightarrow> history_viewer \<times> 'm engine" where
  "HistoryViewer_presses self [] e = (self, e)"
| "HistoryViewer_presses self (k # ks) e =
    (let (self1, e1) = HistoryViewer_ev_keydown self k e
     in HistoryViewer_presses self1 ks e1)"

subsection \<open>Concrete inputs\<close>

text \<open>
  A player with two items, an engine with one message in its log, and collaborators: a
  bump and a pickup are impossible, every other action succeeds, and the enemy turn makes
  the game-over handler the active one.
\<close>

definition demo_player :: entity where
  "demo_player =
    \<lparr>entity_name = ''Player'',
     inventory_items = [\<lparr>item_name = ''Health Potion''\<rparr>, \<lparr>item_name = ''Lightning Scroll''\<rparr>]\<rparr>"

definition demo_engine :: "unit engine" where
  "demo_engine =
    \<lparr>event_handler = InventoryDropHandler,
     message_log = [(''Hello and welcome, adventurer!'', narrative)],
     mouse_location = (0, 0),
     player = demo_player,
     game_map = ()\<rparr>"

definition demo_perform :: "action \<Rightarrow> unit engine \<Rightarrow> unit res \<times> unit engine" where
  "demo_perform a e =
    (case a of
       BumpAction _ _ _ \<Rightarrow> (Raise (Impossible [''That way is blocked.'']), e)
     | PickupAction _ \<Rightarrow> (Raise (Impossible [''There is nothing here to pick up.'']), e)
     | _ \<Rightarrow> (Return (), e))"

definition demo_collab :: "unit collab" where
  "demo_collab =
    \<lparr>perform = demo_perform,
     handle_enemy_turns = (\<lambda>e. e\<lparr>event_handler := GameOverEventHandler\<rparr>),
     update_fov = (\<lambda>e. e),
     in_bounds = (\<lambda>m x y. 0 \<le> x \<and> x < 80 \<and> 0 \<le> y \<and> y < 43),
     get_action = (\<lambda>it p e. (Return (Some (ItemAction p it)), e))\<rparr>"

definition demo_state :: "unit state" where
  "demo_state = \<lparr>eng = demo_engine, calls = []\<rparr>"

text \<open>The same engine before any message was logged.\<close>

definition empty_log_engine :: "unit engine" where
  "empty_log_engine = demo_engine\<lparr>message_log := []\<rparr>"

section \<open>The key tables have no duplicate key\<close>

text \<open>
  A Python dict literal keeps the last value of a repeated key and \<open>map_of\<close> the first;
  the tables repeat no key, so the association lists are the dicts.
\<close>

lemma MOVE_KEYS_distinct: "distinct (map fst MOVE_KEYS)"
  by (simp add: MOVE_KEYS_def keysym_defs)

lemma CURSOR_Y_KEYS_distinct: "distinct (map fst CURSOR_Y_KEYS)"
  by (simp add: CURSOR_Y_KEYS_def keysym_defs)

section \<open>The turn protocol\<close>

text \<open>
  C1. The base \<open>handle_action\<close>: without an action it returns False and leaves the
  engine and the record of calls as they were. With an action whose \<open>perform()\<close>
  returns, it returns True, the engine is the one \<open>perform\<close> left, passed through the
  enemy turn and then through the recompute of the field of view, and the calls made are
  \<open>perform\<close>, the enemy turn and the recompute, once each and in this order.
\<close>

theorem EventHandler_handle_action_turn:
  "EventHandler_handle_action c None s = (Return False, s) \<and>
   (\<forall>a e1. perform c a (eng s) = (Return (), e1) \<longrightarrow>
      EventHandler_handle_action c (Some a) s =
        (Return True,
         \<lparr>eng = update_fov c (handle_enemy_turns c e1),
          calls = calls s @ [Call_perform a, Call_handle_enemy_turns, Call_update_fov]\<rparr>))"
  by (simp add: EventHandler_handle_action_def)

theorem EventHandler_handle_action_turn_witness:
  "perform demo_collab (WaitAction demo_player) (eng demo_state) = (Return (), demo_engine) \<and>
   EventHandler_handle_action demo_collab (Some (WaitAction demo_player)) demo_state =
     (Return True,
      \<lparr>eng = demo_engine\<lparr>event_handler := GameOverEventHandler\<rparr>,
       calls = [Call_perform (WaitAction demo_player), Call_handle_enemy_turns, Call_update_fov]\<rparr>)"
proof -
  have p: "perform demo_collab (WaitAction demo_player) (eng demo_state) = (Return (), demo_engine)"
    by (simp add: demo_collab_def demo_perform_def demo_state_def)
  from EventHandler_handle_action_turn [of demo_collab demo_state] p
  show ?thesis
    by (simp add: demo_collab_def demo_state_def)
qed

text \<open>
  C2. When \<open>perform()\<close> raises Impossible with a reason, the base \<open>handle_action\<close>
  returns False, the reason is appended to the message log under the category
  \<open>impossible\<close>, and the only collaborator call made is \<open>perform\<close>: neither the enemy
  turn nor the recompute of the field of view is called. The same holds for
  \<open>handle_action\<close> of every handler class.
\<close>

theorem EventHandler_handle_action_impossible:
  assumes "perform c a (eng s) = (Raise (Impossible (reason # rest)), e1)"
  shows "EventHandler_handle_action c (Some a) s =
     (Return False,
      \<lparr>eng = e1\<lparr>message_log := message_log e1 @ [(reason, impossible)]\<rparr>,
       calls = calls s @ [Call_perform a]\<rparr>) \<and>
   handle_action c self (Some a) s =
     (Return False,
      \<lparr>eng = e1\<lparr>message_log := message_log e1 @ [(reason, impossible)]\<rparr>,
       calls = calls s @ [Call_perform a]\<rparr>)"
proof -
  from assms have base: "EventHandler_handle_action c (Some a) s =
     (Return False,
      \<lparr>eng = e1\<lparr>message_log := message_log e1 @ [(reason, impossible)]\<rparr>,
       calls = calls s @ [Call_perform a]\<rparr>)"
    by (simp add: EventHandler_handle_action_def add_message_def)
  then have "handle_action c self (Some a) s =
     (Return False,
      \<lparr>eng = e1\<lparr>message_log := message_log e1 @ [(reason, impossible)]\<rparr>,
       calls = calls s @ [Call_perform a]\<rparr>)"
    by (simp add: handle_action_def AskUserEventHandler_handle_action_def)
  with base show ?thesis
    by (rule conjI)
qed

theorem EventHandler_handle_action_impossible_witness:
  "perform demo_collab (BumpAction demo_player 0 (-1)) (eng demo_state) =
     (Raise (Impossible [''That way is blocked.'']), demo_engine) \<and>
   EventHandler_handle_action demo_collab (Some (BumpAction demo_player 0 (-1))) demo_state =
     (Return False,
      \<lparr>eng = demo_engine\<lparr>message_log :=
              [(''Hello and welcome, adventurer!'', narrative),
               (''That way is blocked.'', impossible)]\<rparr>,
       calls = [Call_perform (BumpAction demo_player 0 (-1))]\<rparr>)"
proof -
  have p: "perform demo_collab (BumpAction demo_player 0 (-1)) (eng demo_state) =
     (Raise (Impossible (''That way is blocked.'' # [])), demo_engine)"
    by (simp add: demo_collab_def demo_perform_def demo_state_def)
  from EventHandler_handle_action_impossible [OF p, of MainGameEventHandler] p
  show ?thesis
    by (simp add: demo_state_def demo_engine_def)
qed

section \<open>Modal handlers\<close>

text \<open>
  When the base \<open>handle_action\<close> returns False, the active handler is the one the
  engine had before the call, or the one \<open>perform\<close> left.
\<close>

lemma EventHandler_handle_action_False:
  assumes "EventHandler_handle_action c act s = (Return False, s1)"
  shows "event_handler (eng s1) =
    (case act of None \<Rightarrow> event_handler (eng s)
     | Some a \<Rightarrow> event_handler (snd (perform c a (eng s))))"
  using assms
  by (auto simp: EventHandler_handle_action_def add_message_def Let_def
      split: option.splits prod.splits res.splits exn.splits list.splits)

text \<open>
  C3. For every handler class that derives from AskUserEventHandler: when
  \<open>handle_action\<close> returns True, the active handler is MainGameEventHandler; when it
  returns False, the result is that of the base method, and the active handler is the
  one the engine had before the call (no action) or the one \<open>perform\<close> left:
  \<open>handle_action\<close> itself has made no transition.
\<close>

theorem AskUser_handle_action_modal_exit:
  assumes "derives_AskUser self"
  shows "(handle_action c self act s = (Return True, s1) \<longrightarrow>
            event_handler (eng s1) = MainGameEventHandler) \<and>
         (handle_action c self act s = (Return False, s1) \<longrightarrow>
            EventHandler_handle_action c act s = (Return False, s1) \<and>
            event_handler (eng s1) =
              (case act of None \<Rightarrow> event_handler (eng s)
               | Some a \<Rightarrow> event_handler (snd (perform c a (eng s)))))"
proof (intro conjI impI)
  assume "handle_action c self act s = (Return True, s1)"
  with assms show "event_handler (eng s1) = MainGameEventHandler"
    by (auto simp: handle_action_def AskUserEventHandler_handle_action_def
        split: prod.splits res.splits if_splits)
next
  assume f: "handle_action c self act s = (Return False, s1)"
  with assms show b: "EventHandler_handle_action c act s = (Return False, s1)"
    by (auto simp: handle_action_def AskUserEventHandler_handle_action_def
        split: prod.splits res.splits if_splits)
  then show "event_handler (eng s1) =
              (case act of None \<Rightarrow> event_handler (eng s)
               | Some a \<Rightarrow> event_handler (snd (perform c a (eng s))))"
    by (rule EventHandler_handle_action_False)
qed

text \<open>
  In the drop menu: dropping an item succeeds, the enemy turn makes the game-over
  handler active, and MainGameEventHandler is the active handler afterwards; picking up
  is impossible, and the drop menu stays the active handler.
\<close>

theorem AskUser_handle_action_modal_exit_witness:
  "derives_AskUser InventoryDropHandler \<and>
   handle_action demo_collab InventoryDropHandler
       (Some (DropItem demo_player \<lparr>item_name = ''Health Potion''\<rparr>)) demo_state =
     (Return True,
      \<lparr>eng = demo_engine\<lparr>event_handler := MainGameEventHandler\<rparr>,
       calls = [Call_perform (DropItem demo_player \<lparr>item_name = ''Health Potion''\<rparr>),
                Call_handle_enemy_turns, Call_update_fov]\<rparr>) \<and>
   event_handler (eng \<lparr>eng = demo_engine\<lparr>event_handler := MainGameEventHandler\<rparr>,
       calls = [Call_perform (DropItem demo_player \<lparr>item_name = ''Health Potion''\<rparr>),
                Call_handle_enemy_turns, Call_update_fov]\<rparr>) = MainGameEventHandler \<and>
   handle_action demo_collab InventoryDropHandler
       (Some (PickupAction demo_player)) demo_state =
     (Return False,
      \<lparr>eng = add_message ''There is nothing here to pick up.'' impossible demo_engine,
       calls = [Call_perform (PickupAction demo_player)]\<rparr>) \<and>
   event_handler (eng \<lparr>eng = add_message ''There is nothing here to pick up.'' impossible demo_engine,
       calls = [Call_perform (PickupAction demo_player)]\<rparr>) = InventoryDropHandler"
proof -
  let ?drop = "DropItem demo_player \<lparr>item_name = ''Health Potion''\<rparr>"
  let ?sT = "\<lparr>eng = demo_engine\<lparr>event_handler := MainGameEventHandler\<rparr>,
       calls = [Call_perform ?drop, Call_handle_enemy_turns, Call_update_fov]\<rparr>"
  let ?sF = "\<lparr>eng = add_message ''There is nothing here to pick up.'' impossible demo_engine,
       calls = [Call_perform (PickupAction demo_player)]\<rparr>"
  have d: "derives_AskUser InventoryDropHandler" by simp
  have t: "handle_action demo_collab InventoryDropHandler (Some ?drop) demo_state =
     (Return True, ?sT)"
    by (simp add: handle_action_def AskUserEventHandler_handle_action_def
        EventHandler_handle_action_def demo_collab_def demo_perform_def demo_state_def)
  have f: "handle_action demo_collab InventoryDropHandler (Some (PickupAction demo_player))
       demo_state = (Return False, ?sF)"
    by (simp add: handle_action_def AskUserEventHandler_handle_action_def
        EventHandler_handle_action_def demo_collab_def demo_perform_def demo_state_def)
  from AskUser_handle_action_modal_exit [OF d, of demo_collab "Some ?drop" demo_state ?sT] t
  have T: "event_handler (eng ?sT) = MainGameEventHandler"
    by blast
  from AskUser_handle_action_modal_exit
    [OF d, of demo_collab "Some (PickupAction demo_player)" demo_state ?sF] f
  have "event_handler (eng ?sF) =
     event_handler (snd (perform demo_collab (PickupAction demo_player) (eng demo_state)))"
    by simp
  then have F: "event_handler (eng ?sF) = InventoryDropHandler"
    by (simp add: demo_collab_def demo_perform_def demo_state_def demo_engine_def)
  from d t T f F show ?thesis
    by (intro conjI)
qed

section \<open>The inventory menu\<close>

text \<open>
  C5. In an inventory handler, for a key whose offset from the letter a is between 0
  and 26: when the offset is not below the number of items, the message
  \<open>Invalid entry.\<close> is logged under the category \<open>invalid\<close>, no action is returned
  and the active handler is the one it was; when the offset is below the number of
  items, the result is that of \<open>on_item_selected\<close> on the item at that index. The
  offset of a is 0, that of b is 1, that of z is 25.
\<close>

theorem InventoryEventHandler_ev_keydown_index:
  assumes "0 \<le> ksym - KeySym_a" "ksym - KeySym_a \<le> 26"
  shows "(int (length (inventory_items (player e))) \<le> ksym - KeySym_a \<longrightarrow>
            InventoryEventHandler_ev_keydown on_item_selected ksym e =
              (Return None,
               e\<lparr>message_log := message_log e @ [(''Invalid entry.'', invalid)]\<rparr>) \<and>
            event_handler (snd (InventoryEventHandler_ev_keydown on_item_selected ksym e)) =
              event_handler e) \<and>
         (ksym - KeySym_a < int (length (inventory_items (player e))) \<longrightarrow>
            InventoryEventHandler_ev_keydown on_item_selected ksym e =
              on_item_selected (inventory_items (player e) ! nat (ksym - KeySym_a)) e) \<and>
         KeySym_a - KeySym_a = 0 \<and> KeySym_b - KeySym_a = 1 \<and> KeySym_z - KeySym_a = 25"
proof (intro conjI impI)
  assume "int (length (inventory_items (player e))) \<le> ksym - KeySym_a"
  with assms have n: "\<not> nat (ksym - KeySym_a) < length (inventory_items (player e))"
    by linarith
  with assms show r: "InventoryEventHandler_ev_keydown on_item_selected ksym e =
      (Return None, e\<lparr>message_log := message_log e @ [(''Invalid entry.'', invalid)]\<rparr>)"
    by (simp add: InventoryEventHandler_ev_keydown_def add_message_def)
  show "event_handler (snd (InventoryEventHandler_ev_keydown on_item_selected ksym e)) =
      event_handler e"
    by (simp add: r)
next
  assume "ksym - KeySym_a < int (length (inventory_items (player e)))"
  with assms have "nat (ksym - KeySym_a) < length (inventory_items (player e))"
    by linarith
  with assms show "InventoryEventHandler_ev_keydown on_item_selected ksym e =
      on_item_selected (inventory_items (player e) ! nat (ksym - KeySym_a)) e"
    by (simp add: InventoryEventHandler_ev_keydown_def)
qed (simp_all add: keysym_defs)

theorem InventoryEventHandler_ev_keydown_index_witness:
  "0 \<le> KeySym_b - KeySym_a \<and> KeySym_b - KeySym_a \<le> 26 \<and>
   InventoryEventHandler_ev_keydown InventoryDropHandler_on_item_selected KeySym_b demo_engine =
     (Return (Some (DropItem demo_player \<lparr>item_name = ''Lightning Scroll''\<rparr>)), demo_engine) \<and>
   0 \<le> KeySym_d - KeySym_a \<and> KeySym_d - KeySym_a \<le> 26 \<and>
   InventoryEventHandler_ev_keydown InventoryDropHandler_on_item_selected KeySym_d demo_engine =
     (Return None,
      demo_engine\<lparr>message_log :=
        [(''Hello and welcome, adventurer!'', narrative), (''Invalid entry.'', invalid)]\<rparr>)"
proof -
  have b: "0 \<le> KeySym_b - KeySym_a" "KeySym_b - KeySym_a \<le> 26"
    by (simp_all add: keysym_defs)
  have d: "0 \<le> KeySym_d - KeySym_a" "KeySym_d - KeySym_a \<le> 26"
    by (simp_all add: keysym_defs)
  have ib: "nat (KeySym_b - KeySym_a) = 1" and id: "KeySym_d - KeySym_a = 3"
    by (simp_all add: keysym_defs)
  from InventoryEventHandler_ev_keydown_index
         [OF b, of demo_engine InventoryDropHandler_on_item_selected]
       InventoryEventHandler_ev_keydown_index
         [OF d, of demo_engine InventoryDropHandler_on_item_selected]
       b d
  show ?thesis
    by (simp add: ib id demo_engine_def demo_player_def InventoryDropHandler_on_item_selected_def)
qed

section \<open>The default key handling of a modal handler\<close>

lemma modifier_keys_not_letters:
  "ksym \<in> set modifier_keys \<Longrightarrow> \<not> (0 \<le> ksym - KeySym_a \<and> ksym - KeySym_a \<le> 26)"
  by (auto simp: modifier_keys_def keysym_defs)

lemma InventoryEventHandler_ev_keydown_default:
  "\<not> (0 \<le> ksym - KeySym_a \<and> ksym - KeySym_a \<le> 26) \<Longrightarrow>
   InventoryEventHandler_ev_keydown on_item_selected ksym e =
     AskUserEventHandler_ev_keydown ksym e"
  by (auto simp: InventoryEventHandler_ev_keydown_def Let_def)

lemma ev_keydown_AskUser_default:
  assumes "derives_AskUser self"
    and "self = AskUserEventHandler \<or> \<not> (0 \<le> ksym - KeySym_a \<and> ksym - KeySym_a \<le> 26)"
  shows "ev_keydown c self ksym e =
    (fst (AskUserEventHandler_ev_keydown ksym e), self,
     snd (AskUserEventHandler_ev_keydown ksym e))"
  using assms
  by (cases self) (auto simp: InventoryEventHandler_ev_keydown_default split: prod.splits)

text \<open>
  C8. The default \<open>ev_keydown\<close> of AskUserEventHandler: a press of one of the six
  modifier keys returns no action and leaves the engine as it was; a press of any other
  key is \<open>on_exit()\<close>, which makes MainGameEventHandler the active handler and returns
  no action. The same holds for every class that derives from AskUserEventHandler where
  the press reaches the default: always for a modifier key, and for another key when the
  class is AskUserEventHandler itself or the offset of the key from the letter a is not
  between 0 and 26 (the keys an inventory handler takes as a selection).
\<close>

theorem AskUser_ev_keydown_default:
  "(ksym \<in> {KeySym_LSHIFT, KeySym_RSHIFT, KeySym_LCTRL, KeySym_RCTRL, KeySym_LALT, KeySym_RALT}
      \<longrightarrow> AskUserEventHandler_ev_keydown ksym e = (Return None, e) \<and>
          (derives_AskUser self \<longrightarrow> ev_keydown c self ksym e = (Return None, self, e))) \<and>
   (ksym \<notin> {KeySym_LSHIFT, KeySym_RSHIFT, KeySym_LCTRL, KeySym_RCTRL, KeySym_LALT, KeySym_RALT}
      \<longrightarrow> AskUserEventHandler_ev_keydown ksym e = AskUserEventHandler_on_exit e \<and>
          (derives_AskUser self \<and>
           (self = AskUserEventHandler \<or> ksym - KeySym_a < 0 \<or> 26 < ksym - KeySym_a) \<longrightarrow>
             ev_keydown c self ksym e =
               (Return None, self, e\<lparr>event_handler := MainGameEventHandler\<rparr>))) \<and>
   AskUserEventHandler_on_exit e = (Return None, e\<lparr>event_handler := MainGameEventHandler\<rparr>)"
proof (intro conjI impI)
  assume "ksym \<in> {KeySym_LSHIFT, KeySym_RSHIFT, KeySym_LCTRL, KeySym_RCTRL, KeySym_LALT, KeySym_RALT}"
  then have m: "ksym \<in> set modifier_keys"
    by (simp add: modifier_keys_def)
  then show a: "AskUserEventHandler_ev_keydown ksym e = (Return None, e)"
    by (simp add: AskUserEventHandler_ev_keydown_def)
  assume "derives_AskUser self"
  from ev_keydown_AskUser_default [OF this, of ksym c e] modifier_keys_not_letters [OF m] a
  show "ev_keydown c self ksym e = (Return None, self, e)"
    by simp
next
  assume "ksym \<notin> {KeySym_LSHIFT, KeySym_RSHIFT, KeySym_LCTRL, KeySym_RCTRL, KeySym_LALT, KeySym_RALT}"
  then have m: "ksym \<notin> set modifier_keys"
    by (simp add: modifier_keys_def)
  then show a: "AskUserEventHandler_ev_keydown ksym e = AskUserEventHandler_on_exit e"
    by (simp add: AskUserEventHandler_ev_keydown_def)
  assume d: "derives_AskUser self \<and>
    (self = AskUserEventHandler \<or> ksym - KeySym_a < 0 \<or> 26 < ksym - KeySym_a)"
  then have "self = AskUserEventHandler \<or> \<not> (0 \<le> ksym - KeySym_a \<and> ksym - KeySym_a \<le> 26)"
    by linarith
  from ev_keydown_AskUser_default [OF conjunct1 [OF d] this, of c e] a
  show "ev_keydown c self ksym e = (Return None, self, e\<lparr>event_handler := MainGameEventHandler\<rparr>)"
    by (simp add: AskUserEventHandler_on_exit_def)
next
  show "AskUserEventHandler_on_exit e = (Return None, e\<lparr>event_handler := MainGameEventHandler\<rparr>)"
    by (simp add: AskUserEventHandler_on_exit_def)
qed

theorem AskUser_ev_keydown_default_witness:
  "KeySym_LSHIFT \<in>
     {KeySym_LSHIFT, KeySym_RSHIFT, KeySym_LCTRL, KeySym_RCTRL, KeySym_LALT, KeySym_RALT} \<and>
   derives_AskUser InventoryDropHandler \<and>
   ev_keydown demo_collab InventoryDropHandler KeySym_LSHIFT demo_engine =
     (Return None, InventoryDropHandler, demo_engine) \<and>
   KeySym_ESCAPE \<notin>
     {KeySym_LSHIFT, KeySym_RSHIFT, KeySym_LCTRL, KeySym_RCTRL, KeySym_LALT, KeySym_RALT} \<and>
   KeySym_ESCAPE - KeySym_a < 0 \<and>
   ev_keydown demo_collab InventoryDropHandler KeySym_ESCAPE demo_engine =
     (Return None, InventoryDropHandler, demo_engine\<lparr>event_handler := MainGameEventHandler\<rparr>)"
proof -
  have k: "KeySym_LSHIFT \<in>
     {KeySym_LSHIFT, KeySym_RSHIFT, KeySym_LCTRL, KeySym_RCTRL, KeySym_LALT, KeySym_RALT}"
    by simp
  have n: "KeySym_ESCAPE \<notin>
     {KeySym_LSHIFT, KeySym_RSHIFT, KeySym_LCTRL, KeySym_RCTRL, KeySym_LALT, KeySym_RALT}"
    by (simp add: keysym_defs)
  have l: "KeySym_ESCAPE - KeySym_a < 0"
    by (simp add: keysym_defs)
  have d: "derives_AskUser InventoryDropHandler"
    by simp
  from AskUser_ev_keydown_default [of KeySym_LSHIFT demo_engine InventoryDropHandler demo_collab] k d
  have a: "ev_keydown demo_collab InventoryDropHandler KeySym_LSHIFT demo_engine =
     (Return None, InventoryDropHandler, demo_engine)"
    by blast
  from AskUser_ev_keydown_default [of KeySym_ESCAPE demo_engine InventoryDropHandler demo_collab] n d l
  have b: "ev_keydown demo_collab InventoryDropHandler KeySym_ESCAPE demo_engine =
     (Return None, InventoryDropHandler, demo_engine\<lparr>event_handler := MainGameEventHandler\<rparr>)"
    by blast
  from k d a n l b show ?thesis
    by blast
qed

section \<open>Quit and escape\<close>

text \<open>
  C7. For every handler object, \<open>dispatch\<close> and \<open>handle_events\<close> on a quit event
  raise SystemExit and do not return; so does a press of the escape key in
  MainGameEventHandler and in GameOverEventHandler.
\<close>

theorem quit_terminates:
  "dispatch c self Quit e = (Raise SystemExit, self, e) \<and>
   handle_events c self Quit s = (Raise SystemExit, self, s) \<and>
   ev_keydown c MainGameEventHandler KeySym_ESCAPE e =
     (Raise SystemExit, MainGameEventHandler, e) \<and>
   ev_keydown c GameOverEventHandler KeySym_ESCAPE e =
     (Raise SystemExit, GameOverEventHandler, e) \<and>
   handle_events c MainGameEventHandler (KeyDown KeySym_ESCAPE) s =
     (Raise SystemExit, MainGameEventHandler, s) \<and>
   handle_events c GameOverEventHandler (KeyDown KeySym_ESCAPE) s =
     (Raise SystemExit, GameOverEventHandler, s)"
proof -
  have m: "MainGameEventHandler_ev_keydown KeySym_ESCAPE e' = (Raise SystemExit, e')"
    for e' :: "'a engine"
    by (simp add: MainGameEventHandler_ev_keydown_def MOVE_KEYS_def WAIT_KEYS_def keysym_defs)
  have g: "GameOverEventHandler_ev_keydown KeySym_ESCAPE e' = (Raise SystemExit, e')"
    for e' :: "'a engine"
    by (simp add: GameOverEventHandler_ev_keydown_def)
  show ?thesis
    by (simp add: dispatch_def handle_events_def EventHandler_ev_quit_def m g)
qed

section \<open>Movement keys of the main game\<close>

text \<open>
  C9. In MainGameEventHandler a press of Home, End, Page-Up or Page-Down returns a bump
  action of the player with the deltas (-1,-1), (-1,1), (1,-1) and (1,1), and the engine
  is as it was: the active handler has not changed.
\<close>

theorem MainGameEventHandler_ev_keydown_diagonals:
  "MainGameEventHandler_ev_keydown KeySym_HOME e =
     (Return (Some (BumpAction (player e) (-1) (-1))), e) \<and>
   MainGameEventHandler_ev_keydown KeySym_END e =
     (Return (Some (BumpAction (player e) (-1) 1)), e) \<and>
   MainGameEventHandler_ev_keydown KeySym_PAGEUP e =
     (Return (Some (BumpAction (player e) 1 (-1))), e) \<and>
   MainGameEventHandler_ev_keydown KeySym_PAGEDOWN e =
     (Return (Some (BumpAction (player e) 1 1)), e)"
  by (simp add: MainGameEventHandler_ev_keydown_def MOVE_KEYS_def keysym_defs)

section \<open>The history viewer\<close>

lemma map_of_CURSOR_Y_KEYS:
  "map_of CURSOR_Y_KEYS k =
    (if k = KeySym_UP then Some (-1)
     else if k = KeySym_DOWN then Some 1
     else if k = KeySym_PAGEUP then Some (-10)
     else if k = KeySym_PAGEDOWN then Some 10
     else None)"
  by (simp add: CURSOR_Y_KEYS_def)

lemma CURSOR_Y_KEYS_lookup:
  "(ksym, d) \<in> set CURSOR_Y_KEYS \<Longrightarrow> map_of CURSOR_Y_KEYS ksym = Some d"
  by (rule map_of_is_SomeI) (simp_all add: CURSOR_Y_KEYS_def keysym_defs)

text \<open>
  C4. For every navigation key with its delta (up -1, down 1, page-up -10,
  page-down 10): with a negative delta and the cursor at 0 the cursor becomes
  \<open>log_length - 1\<close>; with a positive delta and the cursor at \<open>log_length - 1\<close> it
  becomes 0; in every other case it becomes the cursor plus the delta, clamped from
  below by 0 and from above by \<open>log_length - 1\<close>. The engine and \<open>log_length\<close> are as
  they were, and when \<open>log_length\<close> is at least 1 the new cursor is in the range from
  0 to \<open>log_length - 1\<close>.
\<close>

theorem HistoryViewer_ev_keydown_navigation:
  assumes "(ksym, d) \<in>
     {(KeySym_UP, -1), (KeySym_DOWN, 1), (KeySym_PAGEUP, -10), (KeySym_PAGEDOWN, 10)}"
  shows "HistoryViewer_ev_keydown self ksym e =
     (self\<lparr>cursor :=
        (if d < 0 \<and> cursor self = 0 then log_length self - 1
         else if d > 0 \<and> cursor self = log_length self - 1 then 0
         else max 0 (min (cursor self + d) (log_length self - 1)))\<rparr>, e) \<and>
     (1 \<le> log_length self \<longrightarrow>
        0 \<le> cursor (fst (HistoryViewer_ev_keydown self ksym e)) \<and>
        cursor (fst (HistoryViewer_ev_keydown self ksym e)) \<le> log_length self - 1)"
proof -
  from assms have "(ksym, d) \<in> set CURSOR_Y_KEYS"
    by (simp add: CURSOR_Y_KEYS_def)
  then have "map_of CURSOR_Y_KEYS ksym = Some d"
    by (rule CURSOR_Y_KEYS_lookup)
  then have step: "HistoryViewer_ev_keydown self ksym e =
     (self\<lparr>cursor :=
        (if d < 0 \<and> cursor self = 0 then log_length self - 1
         else if d > 0 \<and> cursor self = log_length self - 1 then 0
         else max 0 (min (cursor self + d) (log_length self - 1)))\<rparr>, e)"
    by (simp add: HistoryViewer_ev_keydown_def)
  have "1 \<le> log_length self \<longrightarrow>
        0 \<le> cursor (fst (HistoryViewer_ev_keydown self ksym e)) \<and>
        cursor (fst (HistoryViewer_ev_keydown self ksym e)) \<le> log_length self - 1"
    by (auto simp: step)
  with step show ?thesis
    by (rule conjI)
qed

text \<open>
  With \<open>log_length\<close> 5, page-down at cursor 0 gives 4, and page-down at 4 gives 0.
\<close>

theorem HistoryViewer_ev_keydown_navigation_witness:
  "(KeySym_PAGEDOWN, 10) \<in>
     {(KeySym_UP, -1), (KeySym_DOWN, 1), (KeySym_PAGEUP, -10), (KeySym_PAGEDOWN, 10)} \<and>
   HistoryViewer_ev_keydown \<lparr>log_length = 5, cursor = 0\<rparr> KeySym_PAGEDOWN demo_engine =
     (\<lparr>log_length = 5, cursor = 4\<rparr>, demo_engine) \<and>
   HistoryViewer_ev_keydown \<lparr>log_length = 5, cursor = 4\<rparr> KeySym_PAGEDOWN demo_engine =
     (\<lparr>log_length = 5, cursor = 0\<rparr>, demo_engine)"
  using
    HistoryViewer_ev_keydown_navigation
      [of KeySym_PAGEDOWN 10 "\<lparr>log_length = 5, cursor = 0\<rparr>" demo_engine]
    HistoryViewer_ev_keydown_navigation
      [of KeySym_PAGEDOWN 10 "\<lparr>log_length = 5, cursor = 4\<rparr>" demo_engine]
  by simp

lemma HistoryViewer_ev_keydown_log_length:
  "log_length (fst (HistoryViewer_ev_keydown self k e)) = log_length self"
  by (simp add: HistoryViewer_ev_keydown_def split: option.splits)

lemma HistoryViewer_ev_keydown_in_range:
  assumes "1 \<le> log_length self" "0 \<le> cursor self" "cursor self \<le> log_length self - 1"
  shows "0 \<le> cursor (fst (HistoryViewer_ev_keydown self k e)) \<and>
         cursor (fst (HistoryViewer_ev_keydown self k e)) \<le> log_length self - 1"
proof (cases "map_of CURSOR_Y_KEYS k")
  case None
  with assms show ?thesis
    by (simp add: HistoryViewer_ev_keydown_def)
next
  case (Some adjust)
  with assms show ?thesis
    by (auto simp: HistoryViewer_ev_keydown_def)
qed

lemma HistoryViewer_presses_log_length:
  "log_length (fst (HistoryViewer_presses self ks e)) = log_length self"
proof (induction ks arbitrary: self e)
  case Nil
  then show ?case by simp
next
  case (Cons k ks)
  obtain self1 e1 where step: "HistoryViewer_ev_keydown self k e = (self1, e1)"
    by (cases "HistoryViewer_ev_keydown self k e")
  have "log_length self1 = log_length self"
    using HistoryViewer_ev_keydown_log_length [of self k e] step by simp
  with Cons.IH [of self1 e1] step show ?case
    by simp
qed

lemma HistoryViewer_presses_in_range:
  assumes "1 \<le> log_length self" "0 \<le> cursor self" "cursor self \<le> log_length self - 1"
  shows "0 \<le> cursor (fst (HistoryViewer_presses self ks e)) \<and>
         cursor (fst (HistoryViewer_presses self ks e)) \<le> log_length self - 1"
  using assms
proof (induction ks arbitrary: self e)
  case Nil
  then show ?case by simp
next
  case (Cons k ks)
  obtain self1 e1 where step: "HistoryViewer_ev_keydown self k e = (self1, e1)"
    by (cases "HistoryViewer_ev_keydown self k e")
  have l: "log_length self1 = log_length self"
    using HistoryViewer_ev_keydown_log_length [of self k e] step by simp
  have r: "0 \<le> cursor self1 \<and> cursor self1 \<le> log_length self1 - 1"
    using HistoryViewer_ev_keydown_in_range [OF Cons.prems, of k e] step l by simp
  from Cons.IH [of self1 e1] l r Cons.prems(1) step show ?case
    by simp
qed

text \<open>
  C6, as amended. On entry \<open>log_length\<close> is the length of the message log at that
  moment and the cursor is \<open>log_length - 1\<close>; no sequence of key presses changes
  \<open>log_length\<close>, whatever the engine (and its log) is by then. When the log is not
  empty on entry, the cursor is in the range from 0 to \<open>log_length - 1\<close> after every
  sequence of key presses.
\<close>

theorem HistoryViewer_cursor_range:
  "log_length (HistoryViewer_init e0) = int (length (message_log e0)) \<and>
   cursor (HistoryViewer_init e0) = log_length (HistoryViewer_init e0) - 1 \<and>
   log_length (fst (HistoryViewer_presses (HistoryViewer_init e0) ks e)) =
     log_length (HistoryViewer_init e0) \<and>
   (message_log e0 \<noteq> [] \<longrightarrow>
      0 \<le> cursor (fst (HistoryViewer_presses (HistoryViewer_init e0) ks e)) \<and>
      cursor (fst (HistoryViewer_presses (HistoryViewer_init e0) ks e)) \<le>
        log_length (HistoryViewer_init e0) - 1)"
proof (intro conjI impI)
  let ?hv = "HistoryViewer_init e0"
  show i: "log_length ?hv = int (length (message_log e0))"
    by (simp add: HistoryViewer_init_def Let_def)
  show c: "cursor ?hv = log_length ?hv - 1"
    by (simp add: HistoryViewer_init_def Let_def)
  show "log_length (fst (HistoryViewer_presses ?hv ks e)) = log_length ?hv"
    by (rule HistoryViewer_presses_log_length)
  assume "message_log e0 \<noteq> []"
  then have "1 \<le> int (length (message_log e0))"
    by (cases "message_log e0") simp_all
  with i c have r: "1 \<le> log_length ?hv" "0 \<le> cursor ?hv" "cursor ?hv \<le> log_length ?hv - 1"
    by linarith+
  from HistoryViewer_presses_in_range [OF r, of ks e]
  show "0 \<le> cursor (fst (HistoryViewer_presses ?hv ks e))"
    and "cursor (fst (HistoryViewer_presses ?hv ks e)) \<le> log_length ?hv - 1"
    by simp_all
qed

text \<open>
  C6 as stated fails on an empty log: on entry the cursor is -1, which is not in the
  range from 0 to \<open>log_length - 1\<close>.
\<close>

theorem HistoryViewer_cursor_range_counterexample:
  "\<not> (0 \<le> cursor (HistoryViewer_init empty_log_engine) \<and>
       cursor (HistoryViewer_init empty_log_engine) \<le>
         log_length (HistoryViewer_init empty_log_engine) - 1)"
  by (simp add: HistoryViewer_init_def empty_log_engine_def demo_engine_def)

theorem HistoryViewer_cursor_range_witness:
  "message_log demo_engine \<noteq> [] \<and>
   log_length (HistoryViewer_init demo_engine) = 1 \<and>
   cursor (HistoryViewer_init demo_engine) = 0 \<and>
   cursor (fst (HistoryViewer_presses (HistoryViewer_init demo_engine)
      [KeySym_UP, KeySym_PAGEDOWN, KeySym_END, KeySym_DOWN] empty_log_engine)) = 0"
proof -
  have m: "message_log demo_engine \<noteq> []"
    by (simp add: demo_engine_def)
  have l: "length (message_log demo_engine) = 1"
    by (simp add: demo_engine_def)
  from HistoryViewer_cursor_range
    [of demo_engine "[KeySym_UP, KeySym_PAGEDOWN, KeySym_END, KeySym_DOWN]" empty_log_engine]
    m l
  show ?thesis
    by simp
qed

text \<open>
  C10. When the viewer is entered on an empty message log, \<open>log_length\<close> is 0 and the
  cursor is -1, and a press of any of the four navigation keys sets the cursor to 0.
\<close>

theorem HistoryViewer_empty_log:
  assumes "message_log e0 = []"
  shows "HistoryViewer_init e0 = \<lparr>log_length = 0, cursor = -1\<rparr> \<and>
         (\<forall>ksym \<in> {KeySym_UP, KeySym_DOWN, KeySym_PAGEUP, KeySym_PAGEDOWN}.
            HistoryViewer_ev_keydown (HistoryViewer_init e0) ksym e =
              (\<lparr>log_length = 0, cursor = 0\<rparr>, e))"
  using assms
  by (simp add: HistoryViewer_init_def HistoryViewer_ev_keydown_def map_of_CURSOR_Y_KEYS
      keysym_defs)

theorem HistoryViewer_empty_log_witness:
  "message_log empty_log_engine = [] \<and>
   HistoryViewer_init empty_log_engine = \<lparr>log_length = 0, cursor = -1\<rparr> \<and>
   KeySym_PAGEUP \<in> {KeySym_UP, KeySym_DOWN, KeySym_PAGEUP, KeySym_PAGEDOWN} \<and>
   HistoryViewer_ev_keydown (HistoryViewer_init empty_log_engine) KeySym_PAGEUP demo_engine =
     (\<lparr>log_length = 0, cursor = 0\<rparr>, demo_engine)"
proof -
  have m: "message_log empty_log_engine = []"
    by (simp add: empty_log_engine_def)
  have k: "KeySym_PAGEUP \<in> {KeySym_UP, KeySym_DOWN, KeySym_PAGEUP, KeySym_PAGEDOWN}"
    by simp
  note h = HistoryViewer_empty_log [OF m, of demo_engine]
  from h have i: "HistoryViewer_init empty_log_engine = \<lparr>log_length = 0, cursor = -1\<rparr>"
    by (rule conjunct1)
  from h k have p:
    "HistoryViewer_ev_keydown (HistoryViewer_init empty_log_engine) KeySym_PAGEUP demo_engine =
       (\<lparr>log_length = 0, cursor = 0\<rparr>, demo_engine)"
    by blast
  from m i k p show ?thesis
    by blast
qed

end
